theory Spec2Isabelle
  imports Complex_Main "HOL-Library.Sublist"
begin

section \<open>The runtime: strings and numbers\<close>

text \<open>
  The two components (\<^verbatim>\<open>src/components/DocumentChatbot.tsx\<close> and \<^verbatim>\<open>src/Zero.tsx\<close>) are
  TypeScript. Their strings are modelled as \<^typ>\<open>string\<close>, each \<^typ>\<open>char\<close> read as one code
  unit in the range U+0000 to U+00FF; text with code units beyond U+00FF is outside the model.
\<close>

subsection \<open>String.prototype.toLowerCase, includes and trim\<close>

text \<open>
  In the range U+0000 to U+00FF the letters with a lower-case mapping are \<open>A\<close> to \<open>Z\<close>
  (65 to 90) and U+00C0 to U+00DE without the multiplication sign U+00D7; each maps to the
  code unit 32 above it.
\<close>

definition toLowerCase_char :: "char \<Rightarrow> char" where
  "toLowerCase_char c =
     (let n = (of_char c :: nat)
      in if (65 \<le> n \<and> n \<le> 90) \<or> (192 \<le> n \<and> n \<le> 222 \<and> n \<noteq> 215)
         then char_of (n + 32) else c)"

definition toLowerCase :: "string \<Rightarrow> string" where
  "toLowerCase s = map toLowerCase_char s"

text \<open>\<^verbatim>\<open>s.includes(t)\<close>: \<open>t\<close> occurs in \<open>s\<close> as a contiguous run of code units.\<close>

definition str_includes :: "string \<Rightarrow> string \<Rightarrow> bool" where
  "str_includes s t = sublist t s"

text \<open>
  The white space and line terminators of ECMAScript that lie in the modelled range: TAB, LF,
  VT, FF, CR, SPACE and NO-BREAK SPACE.
\<close>

definition isWhiteSpace :: "char \<Rightarrow> bool" where
  "isWhiteSpace c = ((of_char c :: nat) \<in> {9, 10, 11, 12, 13, 32, 160})"

definition trim :: "string \<Rightarrow> string" where
  "trim s = rev (dropWhile isWhiteSpace (rev (dropWhile isWhiteSpace s)))"

subsection \<open>Integers in template literals\<close>

text \<open>
  Array indices and page indices are integers; within the safe-integer range \<^verbatim>\<open>n + 1\<close> is
  exact and a template literal prints the integer in decimal. They are modelled as
  \<^typ>\<open>nat\<close> and \<^typ>\<open>int\<close>.
\<close>

definition digit_char :: "nat \<Rightarrow> char" where
  "digit_char d = char_of (48 + d)"

fun show_nat :: "nat \<Rightarrow> string" where
  "show_nat n = (if n < 10 then [digit_char n] else show_nat (n div 10) @ [digit_char (n mod 10)])"

declare show_nat.simps [simp del]

definition show_int :: "int \<Rightarrow> string" where
  "show_int i = (if i < 0 then ''-'' @ show_nat (nat (- i)) else show_nat (nat i))"

subsection \<open>Numbers: IEEE 754 doubles\<close>

text \<open>
  A relevance score is a Number. \<open>Finite neg m e\<close> stands for the value
  \<open>(if neg then -1 else 1) * m * 2 ^ e\<close>; every finite double has such a form with
  \<open>m < 2 ^ 53\<close> and \<open>-1074 \<le> e \<le> 971\<close>. The operations below go by the value, so a
  value may be given in any of its forms.
\<close>

datatype number = NaN | Infinity bool | Finite bool nat int

text \<open>The number of binary digits of a natural number.\<close>

fun bitlen :: "nat \<Rightarrow> nat" where
  "bitlen n = (if n = 0 then 0 else Suc (bitlen (n div 2)))"

declare bitlen.simps [simp del]

text \<open>
  Rounding the exact value \<open>m * 2 ^ e\<close> to the nearest double, ties to the even significand:
  \<open>sh\<close> low bits are dropped so that 53 bits remain and the exponent is at least -1074
  (the subnormal range); a result of magnitude \<open>2 ^ 1024\<close> or more overflows to infinity.
  Rounding up may give the significand \<open>2 ^ 53\<close>, which is \<open>2 ^ 52\<close> at the next exponent.
\<close>

definition round_to_double :: "bool \<Rightarrow> nat \<Rightarrow> int \<Rightarrow> number" where
  "round_to_double neg m e =
     (let sh = nat (max (int (bitlen m) - 53) (- 1074 - e));
          q = m div 2 ^ sh;
          r = m mod 2 ^ sh;
          q' = (if 2 ^ sh < 2 * r \<or> (2 * r = 2 ^ sh \<and> odd q) then q + 1 else q);
          e' = e + int sh
      in if 0 \<le> e' \<and> (2::nat) ^ 1024 \<le> q' * 2 ^ nat e' then Infinity neg
         else Finite neg q' e')"

text \<open>Number multiplication, \<^verbatim>\<open>x * y\<close>.\<close>

fun mul :: "number \<Rightarrow> number \<Rightarrow> number" where
  "mul NaN _ = NaN"
| "mul _ NaN = NaN"
| "mul (Infinity s) (Infinity t) = Infinity (s \<noteq> t)"
| "mul (Infinity s) (Finite t m e) = (if m = 0 then NaN else Infinity (s \<noteq> t))"
| "mul (Finite s m e) (Infinity t) = (if m = 0 then NaN else Infinity (s \<noteq> t))"
| "mul (Finite s m e) (Finite t n f) = round_to_double (s \<noteq> t) (m * n) (e + f)"

definition hundred :: number where
  "hundred = Finite False 100 0"

text \<open>
  \<^verbatim>\<open>x.toFixed(1)\<close>, after Number.prototype.toFixed of ECMA-262. \<open>NaN\<close> and the infinities
  print as their names. Otherwise the sign is split off (a negative zero has none), and a
  magnitude below \<open>10 ^ 21\<close> prints as the integer \<open>n\<close> nearest to ten times the magnitude,
  the larger one on a tie, with a point before its last digit. For a magnitude of
  \<open>10 ^ 21\<close> or more ECMA-262 hands over to Number::toString, whose digits the standard
  does not fix uniquely; that function is the parameter \<open>numberToString\<close>, applied to the
  magnitude.
\<close>

definition toFixed1 :: "(number \<Rightarrow> string) \<Rightarrow> number \<Rightarrow> string" where
  "toFixed1 numberToString x =
     (case x of
        NaN \<Rightarrow> ''NaN''
      | Infinity neg \<Rightarrow> (if neg then ''-Infinity'' else ''Infinity'')
      | Finite neg m e \<Rightarrow>
          (let s = (if neg \<and> m \<noteq> 0 then ''-'' else '''');
               large = (if 0 \<le> e then 10 ^ 21 \<le> m * 2 ^ nat e
                        else 10 ^ 21 \<le> m div 2 ^ nat (- e))
           in if large then s @ numberToString (Finite False m e)
              else
                (let n = (if 0 \<le> e then 10 * m * 2 ^ nat e
                          else (20 * m + 2 ^ nat (- e)) div 2 ^ (nat (- e) + 1));
                     d = show_nat n;
                     d' = (if length d \<le> 1 then ''0'' @ d else d)
                 in s @ butlast d' @ ''.'' @ [last d'])))"

section \<open>The chatbot: DocumentChatbot.tsx\<close>

subsection \<open>Retrieval results\<close>

text \<open>
  The results of the retrieval service are untyped (\<^verbatim>\<open>any[]\<close>) in the source; the records
  hold the fields that the component reads. A snippet's \<^verbatim>\<open>page_span\<close> may be missing.
\<close>

record document =
  doc_path :: string

record snippet =
  snip_content :: string
  snip_path :: string
  snip_score :: number
  snip_page_span :: "(int \<times> int) option"

record page =
  page_path :: string
  page_index :: int
  page_content :: string

text \<open>
  What \<^verbatim>\<open>formatResponse\<close> and \<^verbatim>\<open>processQuery\<close> return: an object with \<^verbatim>\<open>content\<close> and
  \<^verbatim>\<open>snippets\<close>, and on the formatting path also \<^verbatim>\<open>documents\<close> and \<^verbatim>\<open>pages\<close>. \<open>None\<close> is a
  property that is missing or \<^verbatim>\<open>undefined\<close>.
\<close>

record response =
  content :: string
  snippets :: "snippet list"
  documents :: "document list option"
  pages :: "page list option"

subsection \<open>formatResponse\<close>

text \<open>
  \<^verbatim>\<open>Array.from(new Set(xs))\<close>: a Set keeps its elements in insertion order, and adding an
  element that is already present changes nothing.
\<close>

definition array_from_set :: "'a list \<Rightarrow> 'a list" where
  "array_from_set xs = foldl (\<lambda>acc x. if x \<in> set acc then acc else acc @ [x]) [] xs"

text \<open>\<^verbatim>\<open>pages?.length\<close> as a condition: the list is present and not empty.\<close>

definition pages_length :: "page list option \<Rightarrow> bool" where
  "pages_length pgs = (case pgs of None \<Rightarrow> False | Some ps \<Rightarrow> ps \<noteq> [])"

definition relevance :: "(number \<Rightarrow> string) \<Rightarrow> snippet \<Rightarrow> string" where
  "relevance numberToString s = toFixed1 numberToString (mul (snip_score s) hundred)"

definition formatResponse ::
  "(number \<Rightarrow> string) \<Rightarrow> document list \<Rightarrow> snippet list \<Rightarrow> page list option \<Rightarrow> string \<Rightarrow> response"
where
  "formatResponse numberToString docs snips pgs query =
     (if docs = [] \<and> snips = [] \<and> \<not> pages_length pgs then
        \<lparr>content = ''I couldn't find any relevant information. Please try rephrasing your question.'',
         snippets = [], documents = None, pages = None\<rparr>
      else
        (let response =
           (if str_includes (toLowerCase query) ''show'' \<and>
               (str_includes (toLowerCase query) ''document'' \<or> str_includes (toLowerCase query) ''all'')
            then
              (let uniqueDocs = array_from_set (map doc_path docs)
               in foldl (\<lambda>response (i, path).
                           response @ show_nat (i + 1) @ ''. **'' @ path @ ''**\<newline>'')
                    ''Here are the available documents:\<newline>\<newline>''
                    (enumerate 0 uniqueDocs))
            else if pages_length pgs then
              foldl (\<lambda>response page.
                       (response @ ''From document `'' @ page_path page @ ''` (Page ''
                          @ show_int (page_index page + 1) @ ''):\<newline>'')
                       @ page_content page @ ''\<newline>\<newline>'')
                ''Here are the relevant pages:\<newline>\<newline>''
                (case pgs of None \<Rightarrow> [] | Some ps \<Rightarrow> ps)
            else
              foldl (\<lambda>response snippet.
                       (response @ snip_content snippet @ ''\<newline>\<newline>'')
                       @ (case snip_page_span snippet of
                            Some (span0, span1) \<Rightarrow>
                              ''*Source: `'' @ snip_path snippet @ ''` (Pages ''
                                @ show_int (span0 + 1) @ ''-'' @ show_int (span1 + 1)
                                @ '', Relevance: '' @ relevance numberToString snippet
                                @ ''%)*\<newline>\<newline>''
                          | None \<Rightarrow>
                              ''*Source: `'' @ snip_path snippet @ ''` (Relevance: ''
                                @ relevance numberToString snippet @ ''%)*\<newline>\<newline>''))
                ''Here's what I found:\<newline>\<newline>''
                snips)
         in \<lparr>content = response, snippets = snips, documents = Some docs, pages = pgs\<rparr>))"

subsection \<open>processQuery\<close>

text \<open>
  The client of the retrieval service (\<^verbatim>\<open>ZeroEntropy\<close>) is given by what each of its
  operations answers: a value, or the error it throws. Both components use it; the chatbot
  calls \<^verbatim>\<open>queries.topDocuments\<close>, \<^verbatim>\<open>queries.topSnippets\<close> and \<^verbatim>\<open>queries.topPages\<close> with a
  collection name, the query, \<open>k\<close> and a flag, and the console calls \<^verbatim>\<open>documents.add\<close> and
  \<^verbatim>\<open>documents.getInfoList\<close>.
\<close>

datatype error = Error string

record doc_info =
  info_path :: string
  index_status :: string

record add_request =
  add_collection_name :: string
  add_path :: string
  add_content_type :: string
  add_base64_data :: string
  add_upload_timestamp :: string
  add_filename :: string
  add_file_content_type :: string
  add_size :: string

record zeroEntropy =
  queries_topDocuments :: "string \<Rightarrow> string \<Rightarrow> nat \<Rightarrow> bool \<Rightarrow> error + document list"
  queries_topSnippets :: "string \<Rightarrow> string \<Rightarrow> nat \<Rightarrow> bool \<Rightarrow> error + snippet list"
  queries_topPages :: "string \<Rightarrow> string \<Rightarrow> nat \<Rightarrow> bool \<Rightarrow> error + page list"
  documents_add :: "add_request \<Rightarrow> error + unit"
  documents_getInfoList :: "string \<Rightarrow> nat \<Rightarrow> error + doc_info list"

text \<open>What the chatbot does to the outside: the retrieval calls it issues and its console output.\<close>

datatype effect =
    TopDocumentsCall string string nat bool
  | TopSnippetsCall string string nat bool
  | TopPagesCall string string nat bool
  | ConsoleError string error

text \<open>
  The three awaits run one after the other inside one \<^verbatim>\<open>try\<close>: a call that throws ends the
  block, and the \<^verbatim>\<open>catch\<close> logs the error and returns the apology. The result is paired with
  the effects in the order they happen.
\<close>

definition processQuery ::
  "(number \<Rightarrow> string) \<Rightarrow> zeroEntropy \<Rightarrow> string \<Rightarrow> string \<Rightarrow> response \<times> effect list"
where
  "processQuery numberToString client collectionName query =
     (let caught = (\<lambda>err effects.
            (\<lparr>content = ''Sorry, I encountered an error while searching the documentation.'',
              snippets = [], documents = None, pages = None\<rparr>,
             effects @ [ConsoleError ''Error querying documents:'' err]));
          effects1 = [TopDocumentsCall collectionName query 3 True]
      in case queries_topDocuments client collectionName query 3 True of
           Inl err \<Rightarrow> caught err effects1
         | Inr docsResults \<Rightarrow>
             (let effects2 = effects1 @ [TopSnippetsCall collectionName query 3 True]
              in case queries_topSnippets client collectionName query 3 True of
                   Inl err \<Rightarrow> caught err effects2
                 | Inr snippetsResults \<Rightarrow>
                     if str_includes (toLowerCase query) ''page'' then
                       (let effects3 = effects2 @ [TopPagesCall collectionName query 3 True]
                        in case queries_topPages client collectionName query 3 True of
                             Inl err \<Rightarrow> caught err effects3
                           | Inr pagesResults \<Rightarrow>
                               (formatResponse numberToString docsResults snippetsResults
                                  (Some pagesResults) query, effects3))
                     else
                       (formatResponse numberToString docsResults snippetsResults None query,
                        effects2)))"

subsection \<open>The transcript and handleSubmit\<close>

datatype role = User | Assistant | System

record message =
  msg_id :: string
  msg_role :: role
  msg_content :: string
  msg_snippets :: "snippet list option"

record chat_state =
  messages :: "message list"
  input :: string
  isLoading :: bool

text \<open>
  \<^verbatim>\<open>handleSubmit\<close> up to its \<^verbatim>\<open>await\<close> (\<open>submit_user\<close>) and from there on
  (\<open>submit_assistant\<close>); \<open>now\<close> is what \<^verbatim>\<open>Date.now()\<close> returns at that moment. Each
  \<^verbatim>\<open>setMessages(prev => [...prev, m])\<close> appends to the list as it is then.
\<close>

definition submit_user :: "int \<Rightarrow> chat_state \<Rightarrow> chat_state" where
  "submit_user now st =
     (let userMessage = \<lparr>msg_id = show_int now, msg_role = User, msg_content = input st,
                          msg_snippets = None\<rparr>
      in st\<lparr>messages := messages st @ [userMessage], input := '''', isLoading := True\<rparr>)"

definition submit_assistant :: "response \<Rightarrow> int \<Rightarrow> chat_state \<Rightarrow> chat_state" where
  "submit_assistant r now st =
     (let assistantMessage = \<lparr>msg_id = show_int (now + 1), msg_role = Assistant,
                               msg_content = content r, msg_snippets = Some (snippets r)\<rparr>
      in st\<lparr>messages := messages st @ [assistantMessage], isLoading := False\<rparr>)"

text \<open>The handler run from the submit event to its end, with nothing else in between.\<close>

definition handleSubmit ::
  "(number \<Rightarrow> string) \<Rightarrow> zeroEntropy option \<Rightarrow> string \<Rightarrow> int \<Rightarrow> int \<Rightarrow> chat_state
     \<Rightarrow> chat_state \<times> effect list"
where
  "handleSubmit numberToString client collectionName now1 now2 st =
     (if trim (input st) = [] then (st, [])
      else
        (case client of
           None \<Rightarrow> (st, [])
         | Some c \<Rightarrow>
             (let (r, effects) = processQuery numberToString c collectionName (input st)
              in (submit_assistant r now2 (submit_user now1 st), effects))))"

text \<open>
  The events of the component one at a time: the input field changes
  (\<^verbatim>\<open>onChange\<close> calls \<^verbatim>\<open>setInput\<close>), a submission passes the guard and reaches its
  \<^verbatim>\<open>await\<close>, or a pending submission resumes with its response. Other events may come
  between the two halves of a submission. The relation allows a resumption with any
  response at any time, which is more than the component can do.
\<close>

inductive chat_step :: "zeroEntropy option \<Rightarrow> chat_state \<Rightarrow> chat_state \<Rightarrow> bool"
  for client :: "zeroEntropy option"
where
  typed: "chat_step client st (st\<lparr>input := text\<rparr>)"
| submitted: "trim (input st) \<noteq> [] \<Longrightarrow> client \<noteq> None \<Longrightarrow> chat_step client st (submit_user now st)"
| answered: "chat_step client st (submit_assistant r now st)"

text \<open>
  The evidence properties of a message object. \<^verbatim>\<open>handleSubmit\<close> builds the assistant message
  from \<^verbatim>\<open>id\<close>, \<^verbatim>\<open>role\<close>, \<^verbatim>\<open>content\<close> and \<^verbatim>\<open>snippets\<close> only, as the interface
  \<^verbatim>\<open>Message\<close> declares it: reading \<^verbatim>\<open>documents\<close> or \<^verbatim>\<open>pages\<close> from it yields
  \<^verbatim>\<open>undefined\<close>.
\<close>

definition message_evidence ::
  "message \<Rightarrow> snippet list option \<times> document list option \<times> page list option" where
  "message_evidence m = (msg_snippets m, None, None)"

section \<open>The document console: Zero.tsx\<close>

subsection \<open>State and environment\<close>

record upload_file =
  file_name :: string
  file_type :: string
  file_size :: nat

record api_error =
  error_message :: "string option"

record add_collection_response =
  response_ok :: bool
  response_error :: "api_error option"

text \<open>
  What the browser answers: the response to the add-collection request (or the error with
  which \<^verbatim>\<open>fetch\<close> or \<^verbatim>\<open>response.json()\<close> rejects), the data URL a \<^verbatim>\<open>FileReader\<close>
  produces, the time stamp at the upload of the \<open>i\<close>-th file, and \<^verbatim>\<open>localeCompare\<close>. Of the
  response the model keeps whether its HTTP status is a success (\<^verbatim>\<open>response.ok\<close>, which
  \<^verbatim>\<open>fetch\<close> reports without rejecting) and the \<^verbatim>\<open>error\<close> of its parsed body.
\<close>

record browser =
  fetch_add_collection :: "string \<Rightarrow> string \<Rightarrow> error + add_collection_response"
  readAsDataURL :: "upload_file \<Rightarrow> error + string"
  toISOString_now :: "nat \<Rightarrow> string"
  localeCompare :: "string \<Rightarrow> string \<Rightarrow> int"

datatype upload_effect =
    AddCollectionCall string string
  | ReadFile upload_file
  | AddDocumentCall add_request
  | GetInfoListCall string nat
  | ConsoleLog string
  | ConsoleErr string error

datatype sort_order = Asc | Desc

record DocumentState =
  apiKey :: string
  client :: "zeroEntropy option"
  files :: "upload_file list"
  state_documents :: "doc_info list"
  selectedDocument :: "doc_info option"
  message :: string
  loading :: bool
  searchQuery :: string
  sortOrder :: sort_order
  filterStatus :: string

subsection \<open>loadDocuments\<close>




subsection \<open>handleFileUpload\<close>

text \<open>
  Creating the collection: the request, then the handler of the parsed body. \<open>None\<close> is a
  promise that fulfils; \<open>Some err\<close> is the error that the \<^verbatim>\<open>.catch\<close> logs and throws again.
  A body whose \<^verbatim>\<open>error\<close> has no \<^verbatim>\<open>message\<close> makes \<^verbatim>\<open>.includes\<close> throw a TypeError.
  The status of the response is never read.
\<close>

definition create_collection :: "browser \<Rightarrow> string \<Rightarrow> error option \<times> upload_effect list" where
  "create_collection env key =
     (let call = AddCollectionCall (''Bearer '' @ key) ''default'';
          rethrown = (\<lambda>err. (Some err, [call, ConsoleErr ''Error creating collection:'' err]))
      in case fetch_add_collection env (''Bearer '' @ key) ''default'' of
           Inl err \<Rightarrow> rethrown err
         | Inr response \<Rightarrow>
             (case response_error response of
                None \<Rightarrow> (None, [call])
              | Some e \<Rightarrow>
                  (case error_message e of
                     None \<Rightarrow> rethrown (Error ''TypeError'')
                   | Some msg \<Rightarrow>
                       if str_includes msg ''already exists''
                       then (None, [call, ConsoleLog ''Collection already exists, proceeding with upload.''])
                       else rethrown (Error msg))))"





section \<open>The specification's vocabulary\<close>

text \<open>
  Deduplication as the specification words it: the first occurrence of each element stays,
  in the original order.
\<close>

fun first_occurrences :: "'a list \<Rightarrow> 'a list" where
  "first_occurrences [] = []"
| "first_occurrences (x # xs) = x # first_occurrences (filter (\<lambda>y. y \<noteq> x) xs)"

text \<open>The numbered line \<^verbatim>\<open>{i}. **{path}**\<close>, and the lines of a list of paths numbered from 1.\<close>

definition numbered_line :: "nat \<Rightarrow> string \<Rightarrow> string" where
  "numbered_line i path = show_nat i @ ''. **'' @ path @ ''**''"

definition numbered_lines :: "string list \<Rightarrow> string list" where
  "numbered_lines paths = map (\<lambda>(i, path). numbered_line i path) (enumerate 1 paths)"

text \<open>
  The block of a page: \<^verbatim>\<open>From document `{path}` (Page {page_index+1}):\<close>, the page's content
  and a blank line.
\<close>

definition page_block :: "page \<Rightarrow> string" where
  "page_block p =
     ''From document `'' @ page_path p @ ''` (Page '' @ show_int (page_index p + 1) @ ''):\<newline>''
     @ page_content p @ ''\<newline>\<newline>''"

text \<open>
  The citation line of a snippet, with and without a page span, and the block of a snippet:
  its content, a blank line, the citation line and a blank line.
\<close>

definition citation :: "(number \<Rightarrow> string) \<Rightarrow> snippet \<Rightarrow> string" where
  "citation numberToString s =
     (case snip_page_span s of
        Some (span0, span1) \<Rightarrow>
          ''*Source: `'' @ snip_path s @ ''` (Pages '' @ show_int (span0 + 1) @ ''-''
            @ show_int (span1 + 1) @ '', Relevance: '' @ relevance numberToString s @ ''%)*''
      | None \<Rightarrow>
          ''*Source: `'' @ snip_path s @ ''` (Relevance: '' @ relevance numberToString s @ ''%)*'')"

definition snippet_block :: "(number \<Rightarrow> string) \<Rightarrow> snippet \<Rightarrow> string" where
  "snippet_block numberToString s =
     snip_content s @ ''\<newline>\<newline>'' @ citation numberToString s @ ''\<newline>\<newline>''"

text \<open>
  A number printed with one decimal: the numeral of \<open>n / 10\<close> for a count \<open>n\<close> of tenths.
  The magnitude of \<open>Finite neg m e\<close> is the real number \<open>m * 2 ^ e\<close>.
\<close>

definition tenths :: "nat \<Rightarrow> string" where
  "tenths n = show_nat (n div 10) @ ''.'' @ [digit_char (n mod 10)]"

definition magnitude :: "nat \<Rightarrow> int \<Rightarrow> real" where
  "magnitude m e = (if 0 \<le> e then real m * 2 ^ nat e else real m / 2 ^ nat (- e))"



section \<open>Example inputs\<close>

text \<open>
  A printing of large numbers for the concrete runs below, none of which reaches a
  magnitude of \<open>10 ^ 21\<close>.
\<close>

definition example_numberToString :: "number \<Rightarrow> string" where
  "example_numberToString x = ''1e+21''"

text \<open>
  Two clients for the concrete runs below: one whose document query fails, and one that
  finds one document, no snippet and no page.
\<close>

definition failing_client :: zeroEntropy where
  "failing_client =
     \<lparr>queries_topDocuments = (\<lambda>_ _ _ _. Inl (Error ''rate limit exceeded'')),
      queries_topSnippets = (\<lambda>_ _ _ _. Inr []),
      queries_topPages = (\<lambda>_ _ _ _. Inr []),
      documents_add = (\<lambda>_. Inr ()),
      documents_getInfoList = (\<lambda>_ _. Inr [])\<rparr>"

definition listing_client :: zeroEntropy where
  "listing_client =
     \<lparr>queries_topDocuments = (\<lambda>_ _ _ _. Inr [\<lparr>doc_path = ''a''\<rparr>]),
      queries_topSnippets = (\<lambda>_ _ _ _. Inr []),
      queries_topPages = (\<lambda>_ _ _ _. Inr []),
      documents_add = (\<lambda>_. Inr ()),
      documents_getInfoList = (\<lambda>_ _. Inr [])\<rparr>"




section \<open>Auxiliary facts\<close>

subsection \<open>Decimal numerals\<close>

lemma digit_char_values:
  "digit_char 0 = CHR ''0''" "digit_char 1 = CHR ''1''" "digit_char 2 = CHR ''2''"
  "digit_char 3 = CHR ''3''" "digit_char 4 = CHR ''4''" "digit_char 5 = CHR ''5''"
  "digit_char 6 = CHR ''6''" "digit_char 7 = CHR ''7''" "digit_char 8 = CHR ''8''"
  "digit_char 9 = CHR ''9''" "digit_char (Suc 0) = CHR ''1''"
  by code_simp+

lemma show_nat_1: "show_nat (Suc 0) = ''1''"
  by code_simp

lemma show_nat_2: "show_nat (Suc (Suc 0)) = ''2''"
  by code_simp

lemma show_int_small: "show_int 1 = ''1''" "show_int 2 = ''2''" "show_int 4 = ''4''"
  by code_simp+

subsection \<open>Two relevance scores\<close>

text \<open>
  The double nearest to 0.842 is \<open>7584061772491915 / 2 ^ 53\<close>; a hundred times it rounds to
  the double \<open>5925048259759309 / 2 ^ 46\<close>, which \<^verbatim>\<open>toFixed(1)\<close> prints as 84.2. The score
  0.75 is \<open>3 / 2 ^ 2\<close>.
\<close>

lemma nearest_0842: "\<bar>1000 * 7584061772491915 - 842 * 2 ^ 53\<bar> \<le> (500::int)"
  by simp

lemma bitlen_product: "bitlen 758406177249191500 = 60"
  by (simp add: bitlen.simps)

lemma mul_0842:
  "mul (Finite False 7584061772491915 (- 53)) hundred = Finite False 5925048259759309 (- 46)"
  by (simp add: hundred_def round_to_double_def bitlen_product)

lemma show_nat_842: "show_nat 842 = ''842''"
  by (simp add: show_nat.simps digit_char_values)

lemma toFixed1_842: "toFixed1 numberToString (Finite False 5925048259759309 (- 46)) = ''84.2''"
  by (simp add: toFixed1_def show_nat_842)

lemma score_0842: "relevance numberToString \<lparr>snip_content = c, snip_path = p,
    snip_score = Finite False 7584061772491915 (- 53), snip_page_span = sp\<rparr> = ''84.2''"
  by (simp add: relevance_def mul_0842 toFixed1_842)

lemma mul_075: "mul (Finite False 3 (- 2)) hundred = Finite False 300 (- 2)"
  by (simp add: hundred_def round_to_double_def bitlen.simps)

lemma show_nat_750: "show_nat 750 = ''750''"
  by (simp add: show_nat.simps digit_char_values)

lemma score_075: "relevance numberToString \<lparr>snip_content = c, snip_path = p,
    snip_score = Finite False 3 (- 2), snip_page_span = sp\<rparr> = ''75.0''"
  by (simp add: relevance_def mul_075 toFixed1_def show_nat_750)

subsection \<open>Rounding to one decimal\<close>

text \<open>
  \<^verbatim>\<open>toFixed(1)\<close> of a finite number below \<open>10 ^ 21\<close> in magnitude prints the tenths
  nearest to it: the printed decimal is at most \<open>1 / 20\<close> away.
\<close>

lemma show_nat_nonempty: "show_nat n \<noteq> []"
  by (subst show_nat.simps) simp

lemma point_before_last_digit:
  "(let d = show_nat n; d' = (if length d \<le> 1 then ''0'' @ d else d)
    in butlast d' @ ''.'' @ [last d']) = tenths n"
proof (cases "n < 10")
  case True
  then have "show_nat n = [digit_char n]"
    by (subst show_nat.simps) simp
  moreover from True have "show_nat (n div 10) = ''0''"
    by (subst show_nat.simps) (simp add: digit_char_values)
  ultimately show ?thesis
    using True by (simp add: tenths_def)
next
  case False
  then have d: "show_nat n = show_nat (n div 10) @ [digit_char (n mod 10)]"
    by (subst show_nat.simps) simp
  have "length (show_nat (n div 10)) \<ge> 1"
    by (simp add: Suc_le_eq show_nat_nonempty)
  then show ?thesis
    by (simp add: d tenths_def Let_def show_nat_nonempty)
qed

lemma nearest_tenth_neg:
  fixes m d :: nat
  defines "n \<equiv> (20 * m + 2 ^ d) div 2 ^ (d + 1)"
  shows "\<bar>real n / 10 - real m / 2 ^ d\<bar> \<le> 1 / 20"
proof -
  let ?D = "(2::nat) ^ d"
  have D: "0 < ?D" by simp
  have eq: "20 * m + ?D = (2 * ?D) * n + (20 * m + ?D) mod (2 * ?D)"
    by (simp add: n_def)
  have lt: "(20 * m + ?D) mod (2 * ?D) < 2 * ?D"
    by simp
  have up: "2 * ?D * n \<le> 20 * m + ?D"
    using eq by linarith
  have lo: "20 * m + ?D < 2 * ?D * n + 2 * ?D"
    using eq lt by linarith
  from up have "real (2 * ?D * n) \<le> real (20 * m + ?D)"
    by (simp only: of_nat_le_iff)
  then have up': "2 * real ?D * real n \<le> 20 * real m + real ?D"
    by (simp only: of_nat_add of_nat_mult of_nat_numeral)
  from lo have "real (20 * m + ?D) < real (2 * ?D * n + 2 * ?D)"
    by (simp only: of_nat_less_iff)
  then have lo': "20 * real m + real ?D < 2 * real ?D * real n + 2 * real ?D"
    by (simp only: of_nat_add of_nat_mult of_nat_numeral)
  have Dr: "0 < real ?D" by simp
  have "real n / 10 - real m / real ?D = (2 * real ?D * real n - 20 * real m) / (20 * real ?D)"
    using Dr by (simp add: field_simps)
  moreover have "\<bar>2 * real ?D * real n - 20 * real m\<bar> \<le> real ?D"
    using up' lo' by linarith
  ultimately have "\<bar>real n / 10 - real m / real ?D\<bar> \<le> real ?D / (20 * real ?D)"
    using Dr by (simp add: abs_divide divide_right_mono del: of_nat_power)
  then show ?thesis
    using Dr by simp
qed

lemma toFixed1_rounds:
  assumes small: "magnitude m e < 10 ^ 21"
  shows "\<exists>n. toFixed1 numberToString (Finite neg m e) =
               (if neg \<and> m \<noteq> 0 then ''-'' else '''') @ tenths n \<and>
             \<bar>real n / 10 - magnitude m e\<bar> \<le> 1 / 20"
proof (cases "0 \<le> e")
  case True
  with small have "real (m * 2 ^ nat e) < real (10 ^ 21)"
    by (simp add: magnitude_def)
  then have "m * 2 ^ nat e < 10 ^ 21"
    by (simp only: of_nat_less_iff)
  then have nl: "\<not> (10::nat) ^ 21 \<le> m * 2 ^ nat e"
    by simp
  have "toFixed1 numberToString (Finite neg m e) =
          (if neg \<and> m \<noteq> 0 then ''-'' else '''') @ tenths (10 * m * 2 ^ nat e)"
    using True nl point_before_last_digit [of "10 * m * 2 ^ nat e"]
    by (simp add: toFixed1_def Let_def)
  moreover have "\<bar>real (10 * m * 2 ^ nat e) / 10 - magnitude m e\<bar> \<le> 1 / 20"
    using True by (simp add: magnitude_def)
  ultimately show ?thesis by blast
next
  case False
  let ?d = "nat (- e)"
  have "real (m div 2 ^ ?d) \<le> real m / real (2 ^ ?d)"
    by (rule of_nat_div_le_of_nat)
  also from small False have "\<dots> < real (10 ^ 21)"
    by (simp add: magnitude_def)
  finally have "m div 2 ^ ?d < 10 ^ 21"
    by (simp only: of_nat_less_iff)
  then have nl: "\<not> (10::nat) ^ 21 \<le> m div 2 ^ ?d"
    by simp
  have "toFixed1 numberToString (Finite neg m e) =
          (if neg \<and> m \<noteq> 0 then ''-'' else '''') @
          tenths ((20 * m + 2 ^ ?d) div 2 ^ (?d + 1))"
    using False nl point_before_last_digit [of "(20 * m + 2 ^ ?d) div 2 ^ (?d + 1)"]
    by (simp add: toFixed1_def Let_def)
  moreover have "\<bar>real ((20 * m + 2 ^ ?d) div 2 ^ (?d + 1)) / 10 - magnitude m e\<bar> \<le> 1 / 20"
    using False nearest_tenth_neg [of m ?d] by (simp add: magnitude_def)
  ultimately show ?thesis by blast
qed

subsection \<open>The Set of paths\<close>

lemma array_from_set_foldl:
  "foldl (\<lambda>acc x. if x \<in> set acc then acc else acc @ [x]) acc xs =
     acc @ first_occurrences (filter (\<lambda>y. y \<notin> set acc) xs)"
proof (induction xs arbitrary: acc)
  case Nil
  show ?case by simp
next
  case (Cons x xs)
  show ?case
  proof (cases "x \<in> set acc")
    case True
    then show ?thesis by (simp add: Cons.IH)
  next
    case False
    have "filter (\<lambda>y. y \<noteq> x) (filter (\<lambda>y. y \<notin> set acc) xs) =
          filter (\<lambda>y. y \<notin> set (acc @ [x])) xs"
      by (induction xs) auto
    with False show ?thesis by (simp add: Cons.IH)
  qed
qed

lemma array_from_set_first_occurrences: "array_from_set xs = first_occurrences xs"
  by (simp add: array_from_set_def array_from_set_foldl)

lemma set_first_occurrences: "set (first_occurrences xs) = set xs"
  by (induction xs rule: first_occurrences.induct) auto

lemma distinct_first_occurrences: "distinct (first_occurrences xs)"
  by (induction xs rule: first_occurrences.induct) (auto simp: set_first_occurrences)

subsection \<open>The three loops of formatResponse\<close>

lemma foldl_indexed_append:
  "foldl (\<lambda>r (i, x). r @ g i x) h ixs = h @ concat (map (\<lambda>(i, x). g i x) ixs)"
  by (induction ixs arbitrary: h) (simp_all add: case_prod_beta)

lemma enumerate_shift:
  "map (\<lambda>(i, x). g (i + 1) x) (enumerate n xs) = map (\<lambda>(i, x). g i x) (enumerate (Suc n) xs)"
  by (induction xs arbitrary: n) simp_all

lemma listing_content:
  "foldl (\<lambda>response (i, path). response @ show_nat (i + 1) @ ''. **'' @ path @ ''**\<newline>'')
     h (enumerate 0 paths) =
   h @ concat (map (\<lambda>l. l @ ''\<newline>'') (numbered_lines paths))"
proof -
  have "map (\<lambda>(i, path). show_nat (i + 1) @ ''. **'' @ path @ ''**\<newline>'') (enumerate 0 paths) =
        map (\<lambda>(i, path). show_nat i @ ''. **'' @ path @ ''**\<newline>'') (enumerate (Suc 0) paths)"
    by (rule enumerate_shift)
  also have "\<dots> = map (\<lambda>l. l @ ''\<newline>'') (numbered_lines paths)"
    by (simp add: numbered_lines_def numbered_line_def case_prod_beta comp_def)
  finally show ?thesis
    by (simp only: foldl_indexed_append)
qed

lemma pages_content:
  "foldl (\<lambda>response page.
            (response @ ''From document `'' @ page_path page @ ''` (Page ''
               @ show_int (page_index page + 1) @ ''):\<newline>'')
            @ page_content page @ ''\<newline>\<newline>'') h ps =
   h @ concat (map page_block ps)"
  by (induction ps arbitrary: h) (simp_all add: page_block_def)

lemma snippets_content:
  "foldl (\<lambda>response snippet.
            (response @ snip_content snippet @ ''\<newline>\<newline>'')
            @ (case snip_page_span snippet of
                 Some (span0, span1) \<Rightarrow>
                   ''*Source: `'' @ snip_path snippet @ ''` (Pages ''
                     @ show_int (span0 + 1) @ ''-'' @ show_int (span1 + 1)
                     @ '', Relevance: '' @ relevance numberToString snippet
                     @ ''%)*\<newline>\<newline>''
               | None \<Rightarrow>
                   ''*Source: `'' @ snip_path snippet @ ''` (Relevance: ''
                     @ relevance numberToString snippet @ ''%)*\<newline>\<newline>'')) h ss =
   h @ concat (map (snippet_block numberToString) ss)"
  by (induction ss arbitrary: h)
     (simp_all add: snippet_block_def citation_def split: option.splits prod.splits)

lemma formatResponse_content:
  "content (formatResponse numberToString docs snips pgs query) =
     (if docs = [] \<and> snips = [] \<and> \<not> pages_length pgs then
        ''I couldn't find any relevant information. Please try rephrasing your question.''
      else if str_includes (toLowerCase query) ''show'' \<and>
              (str_includes (toLowerCase query) ''document'' \<or>
               str_includes (toLowerCase query) ''all'') then
        ''Here are the available documents:\<newline>\<newline>'' @
        concat (map (\<lambda>l. l @ ''\<newline>'') (numbered_lines (first_occurrences (map doc_path docs))))
      else if pages_length pgs then
        ''Here are the relevant pages:\<newline>\<newline>'' @
        concat (map page_block (case pgs of None \<Rightarrow> [] | Some ps \<Rightarrow> ps))
      else
        ''Here's what I found:\<newline>\<newline>'' @
        concat (map (snippet_block numberToString) snips))"
  unfolding formatResponse_def Let_def listing_content pages_content snippets_content
    array_from_set_first_occurrences
  by simp

subsection \<open>Blank input\<close>

lemma trim_empty_iff: "trim s = [] \<longleftrightarrow> (\<forall>ch\<in>set s. isWhiteSpace ch)"
proof -
  have all: "(\<forall>x\<in>set (dropWhile P xs). P x) \<longleftrightarrow> (\<forall>x\<in>set xs. P x)" for P and xs :: "'a list"
  proof
    assume a: "\<forall>x\<in>set (dropWhile P xs). P x"
    have "dropWhile P xs = []"
    proof (rule ccontr)
      assume ne: "dropWhile P xs \<noteq> []"
      then have "\<not> P (hd (dropWhile P xs))" by (rule hd_dropWhile)
      moreover from ne have "hd (dropWhile P xs) \<in> set (dropWhile P xs)" by simp
      ultimately show False using a by blast
    qed
    then show "\<forall>x\<in>set xs. P x" by (simp add: dropWhile_eq_Nil_conv)
  next
    assume "\<forall>x\<in>set xs. P x"
    then show "\<forall>x\<in>set (dropWhile P xs). P x" by (blast dest: set_dropWhileD)
  qed
  show ?thesis
    by (simp add: trim_def dropWhile_eq_Nil_conv all)
qed

subsection \<open>The transcript\<close>

lemma snippets_of_formatResponse:
  "snippets (formatResponse numberToString docs snips pgs query) = snips"
  by (auto simp: formatResponse_def Let_def)

lemma chat_step_prefix: "chat_step k s s' \<Longrightarrow> prefix (messages s) (messages s')"
  by (induction rule: chat_step.induct) (simp_all add: submit_user_def submit_assistant_def)

lemma chat_steps_prefix: "(chat_step k)\<^sup>*\<^sup>* s s' \<Longrightarrow> prefix (messages s) (messages s')"
proof (induction rule: rtranclp_induct)
  case base
  show ?case by simp
next
  case (step y z)
  from step.hyps(2) have "prefix (messages y) (messages z)"
    by (rule chat_step_prefix)
  with step.IH show ?case
    by (rule prefix_order.trans)
qed

lemma not_page_listing: "\<not> str_includes (toLowerCase ''show all documents'') ''page''"
  by code_simp

lemma listing_run:
  "handleSubmit example_numberToString (Some listing_client) ''default'' 5 9
     \<lparr>messages = [], input = ''show all documents'', isLoading = False\<rparr> =
   (\<lparr>messages =
       [\<lparr>msg_id = show_int 5, msg_role = User, msg_content = ''show all documents'',
         msg_snippets = None\<rparr>,
        \<lparr>msg_id = show_int (9 + 1), msg_role = Assistant,
         msg_content = content (formatResponse example_numberToString [\<lparr>doc_path = ''a''\<rparr>] [] None
                          ''show all documents''),
         msg_snippets = Some []\<rparr>],
      input = [], isLoading = False\<rparr>,
    [TopDocumentsCall ''default'' ''show all documents'' 3 True,
     TopSnippetsCall ''default'' ''show all documents'' 3 True])"
proof -
  have t: "trim ''show all documents'' \<noteq> []"
    by code_simp
  show ?thesis
    by (simp add: handleSubmit_def t processQuery_def listing_client_def not_page_listing
          submit_user_def submit_assistant_def snippets_of_formatResponse)
qed

subsection \<open>The upload\<close>



lemma create_collection_ok:
  "fetch_add_collection env (''Bearer '' @ key) ''default'' = Inr r \<Longrightarrow>
   response_error r = None \<Longrightarrow>
   create_collection env key = (None, [AddCollectionCall (''Bearer '' @ key) ''default''])"
  by (simp add: create_collection_def)













section \<open>Properties of formatResponse\<close>

text \<open>
  C3. Whatever the query, when there are no documents and no snippets and the pages are
  absent or empty, the formatter returns the fixed "couldn't find any relevant information"
  message with an empty evidence list and nothing else: no branch formats anything.
\<close>

theorem formatResponse_nothing_found:
  "formatResponse numberToString [] [] None query =
     \<lparr>content = ''I couldn't find any relevant information. Please try rephrasing your question.'',
      snippets = [], documents = None, pages = None\<rparr>
   \<and> formatResponse numberToString [] [] (Some []) query =
     \<lparr>content = ''I couldn't find any relevant information. Please try rephrasing your question.'',
      snippets = [], documents = None, pages = None\<rparr>"
  by (simp add: formatResponse_def pages_length_def)

text \<open>
  C1. When documents, snippets or pages are not all empty: a query whose lower-cased form
  contains "show" and also "document" or "all" takes the listing branch, whose output is the
  heading followed by the documents' paths, deduplicated with the first occurrence kept and
  the order preserved, one numbered line \<^verbatim>\<open>{i}. **{path}**\<close> each, counted from 1; for
  the documents a, b, a these are the two lines for a and b. Any other query does not
  produce the listing.
\<close>

theorem formatResponse_listing:
  assumes nonempty: "docs \<noteq> [] \<or> snips \<noteq> [] \<or> (\<exists>ps. pgs = Some ps \<and> ps \<noteq> [])"
  shows "(str_includes (toLowerCase query) ''show'' \<and>
            (str_includes (toLowerCase query) ''document'' \<or>
             str_includes (toLowerCase query) ''all'')
          \<longrightarrow> content (formatResponse numberToString docs snips pgs query) =
                ''Here are the available documents:\<newline>\<newline>'' @
                concat (map (\<lambda>l. l @ ''\<newline>'')
                  (numbered_lines (first_occurrences (map doc_path docs)))))
       \<and> (\<not> (str_includes (toLowerCase query) ''show'' \<and>
               (str_includes (toLowerCase query) ''document'' \<or>
                str_includes (toLowerCase query) ''all''))
          \<longrightarrow> \<not> prefix ''Here are the available documents:''
                  (content (formatResponse numberToString docs snips pgs query)))
       \<and> (str_includes (toLowerCase query) ''show'' \<and>
            (str_includes (toLowerCase query) ''document'' \<or>
             str_includes (toLowerCase query) ''all'') \<and> a \<noteq> b
          \<longrightarrow> content (formatResponse numberToString
                  [\<lparr>doc_path = a\<rparr>, \<lparr>doc_path = b\<rparr>, \<lparr>doc_path = a\<rparr>] snips pgs query) =
                ''Here are the available documents:\<newline>\<newline>'' @
                ''1. **'' @ a @ ''**\<newline>'' @ ''2. **'' @ b @ ''**\<newline>'')"
proof -
  from nonempty have ne: "\<not> (docs = [] \<and> snips = [] \<and> \<not> pages_length pgs)"
    by (auto simp: pages_length_def)
  show ?thesis
    by (simp add: formatResponse_content ne numbered_lines_def numbered_line_def
          show_nat_1 show_nat_2)
qed

theorem formatResponse_listing_witness:
  "str_includes (toLowerCase ''Show ALL documents'') ''show'' \<and>
   str_includes (toLowerCase ''Show ALL documents'') ''all'' \<and>
   content (formatResponse example_numberToString
     [\<lparr>doc_path = ''a''\<rparr>, \<lparr>doc_path = ''b''\<rparr>, \<lparr>doc_path = ''a''\<rparr>] [] None ''Show ALL documents'') =
     ''Here are the available documents:\<newline>\<newline>1. **a**\<newline>2. **b**\<newline>'' \<and>
   \<not> str_includes (toLowerCase ''list the documents'') ''show'' \<and>
   \<not> prefix ''Here are the available documents:''
     (content (formatResponse example_numberToString
        [\<lparr>doc_path = ''a''\<rparr>, \<lparr>doc_path = ''b''\<rparr>, \<lparr>doc_path = ''a''\<rparr>] [] None ''list the documents''))"
proof -
  have show1: "str_includes (toLowerCase ''Show ALL documents'') ''show''"
    by code_simp
  have all1: "str_includes (toLowerCase ''Show ALL documents'') ''all''"
    by code_simp
  have show2: "\<not> str_includes (toLowerCase ''list the documents'') ''show''"
    by code_simp
  have ne: "[\<lparr>doc_path = ''a''\<rparr>, \<lparr>doc_path = ''b''\<rparr>, \<lparr>doc_path = ''a''\<rparr>] \<noteq> [] \<or>
            ([]::snippet list) \<noteq> [] \<or> (\<exists>ps. (None::page list option) = Some ps \<and> ps \<noteq> [])"
    by simp
  from formatResponse_listing [OF ne, where query = "''Show ALL documents''" and a = "''a''"
      and b = "''b''" and numberToString = example_numberToString]
    formatResponse_listing [OF ne, where query = "''list the documents''"
      and numberToString = example_numberToString]
    show1 all1 show2
  show ?thesis
    by (simp add: numbered_lines_def numbered_line_def show_nat_1 show_nat_2)
qed

text \<open>
  C4. For a query without listing intent and a non-empty list of pages the output is the
  heading followed by one block per page, in the order given: the line
  \<^verbatim>\<open>From document `{path}` (Page {page_index+1}):\<close>, the page's content and a blank
  line. For the single page of a.pdf with index 0 and content X this is the line for page 1
  followed by X. The rules are tried in a fixed order: a listing query gets the listing even
  when there are pages, pages are rendered whatever the snippets are, and the snippet
  rendering is what remains.
\<close>

theorem formatResponse_pages:
  assumes not_listing:
    "\<not> (str_includes (toLowerCase query) ''show'' \<and>
        (str_includes (toLowerCase query) ''document'' \<or>
         str_includes (toLowerCase query) ''all''))"
  shows "(ps \<noteq> [] \<longrightarrow>
          content (formatResponse numberToString docs snips (Some ps) query) =
            ''Here are the relevant pages:\<newline>\<newline>'' @ concat (map page_block ps))
       \<and> content (formatResponse numberToString docs snips
            (Some [\<lparr>page_path = ''a.pdf'', page_index = 0, page_content = ''X''\<rparr>]) query) =
            ''Here are the relevant pages:\<newline>\<newline>'' @
            ''From document `a.pdf` (Page 1):\<newline>'' @ ''X'' @ ''\<newline>\<newline>''
       \<and> (ps \<noteq> [] \<and> str_includes (toLowerCase query') ''show'' \<and>
            (str_includes (toLowerCase query') ''document'' \<or>
             str_includes (toLowerCase query') ''all'') \<longrightarrow>
          prefix ''Here are the available documents:''
            (content (formatResponse numberToString docs snips (Some ps) query')))
       \<and> ((docs \<noteq> [] \<or> snips \<noteq> []) \<and> (pgs = None \<or> pgs = Some []) \<longrightarrow>
          prefix ''Here's what I found:''
            (content (formatResponse numberToString docs snips pgs query)))"
  using not_listing
  by (auto simp: formatResponse_content pages_length_def page_block_def show_int_small)

theorem formatResponse_pages_witness:
  "\<not> str_includes (toLowerCase ''What is on page 2?'') ''show'' \<and>
   content (formatResponse example_numberToString [] [\<lparr>snip_content = ''Y'', snip_path = ''b.pdf'',
        snip_score = Finite False 3 (- 2), snip_page_span = None\<rparr>]
      (Some [\<lparr>page_path = ''a.pdf'', page_index = 0, page_content = ''X''\<rparr>,
             \<lparr>page_path = ''c.pdf'', page_index = 3, page_content = ''Z''\<rparr>])
      ''What is on page 2?'') =
     ''Here are the relevant pages:\<newline>\<newline>From document `a.pdf` (Page 1):\<newline>X\<newline>\<newline>From document `c.pdf` (Page 4):\<newline>Z\<newline>\<newline>'' \<and>
   prefix ''Here are the available documents:''
     (content (formatResponse example_numberToString [] [\<lparr>snip_content = ''Y'', snip_path = ''b.pdf'',
        snip_score = Finite False 3 (- 2), snip_page_span = None\<rparr>]
      (Some [\<lparr>page_path = ''a.pdf'', page_index = 0, page_content = ''X''\<rparr>,
             \<lparr>page_path = ''c.pdf'', page_index = 3, page_content = ''Z''\<rparr>])
      ''show all pages'')) \<and>
   prefix ''Here's what I found:''
     (content (formatResponse example_numberToString [] [\<lparr>snip_content = ''Y'', snip_path = ''b.pdf'',
        snip_score = Finite False 3 (- 2), snip_page_span = None\<rparr>]
      (Some []) ''What is on page 2?''))"
proof -
  have q: "\<not> (str_includes (toLowerCase ''What is on page 2?'') ''show'' \<and>
        (str_includes (toLowerCase ''What is on page 2?'') ''document'' \<or>
         str_includes (toLowerCase ''What is on page 2?'') ''all''))"
    by code_simp
  have q': "str_includes (toLowerCase ''show all pages'') ''show''"
      "str_includes (toLowerCase ''show all pages'') ''all''"
    by code_simp+
  have n: "\<not> str_includes (toLowerCase ''What is on page 2?'') ''show''"
    by code_simp
  from formatResponse_pages [OF q, where query' = "''show all pages''"
      and numberToString = example_numberToString and docs = "[]"
      and snips = "[\<lparr>snip_content = ''Y'', snip_path = ''b.pdf'',
        snip_score = Finite False 3 (- 2), snip_page_span = None\<rparr>]"
      and pgs = "Some []"
      and ps = "[\<lparr>page_path = ''a.pdf'', page_index = 0, page_content = ''X''\<rparr>,
             \<lparr>page_path = ''c.pdf'', page_index = 3, page_content = ''Z''\<rparr>]"] q' n
  show ?thesis
    by (simp add: page_block_def show_int_small)
qed

text \<open>
  C2. For a query without listing intent, with the pages absent or empty and at least one
  snippet, the output is the heading followed by one block per snippet in the order given:
  the content, then the citation line, which reads
  \<^verbatim>\<open>*Source: `{path}` (Pages {span[0]+1}-{span[1]+1}, Relevance: {r}%)*\<close> with a page
  span and \<^verbatim>\<open>*Source: `{path}` (Relevance: {r}%)*\<close> without, \<open>r\<close> being a hundred times
  the score printed with one decimal. For the snippet Y of b.pdf with score 0.842 and span
  [1, 3] the line is \<^verbatim>\<open>*Source: `b.pdf` (Pages 2-4, Relevance: 84.2%)*\<close>. The
  printed relevance is rounded to one decimal: whenever the hundredfold score is finite and
  below \<open>10 ^ 21\<close> in magnitude, it is the sign and the tenths \<open>n\<close> with \<open>n / 10\<close> at
  most \<open>1 / 20\<close> away from that magnitude.
\<close>

theorem formatResponse_snippets:
  assumes not_listing:
    "\<not> (str_includes (toLowerCase query) ''show'' \<and>
        (str_includes (toLowerCase query) ''document'' \<or>
         str_includes (toLowerCase query) ''all''))"
    and no_pages: "pgs = None \<or> pgs = Some []"
  shows "(snips \<noteq> [] \<longrightarrow>
          content (formatResponse numberToString docs snips pgs query) =
            ''Here's what I found:\<newline>\<newline>'' @ concat (map (snippet_block numberToString) snips))
       \<and> content (formatResponse numberToString docs
            [\<lparr>snip_content = ''Y'', snip_path = ''b.pdf'',
              snip_score = Finite False 7584061772491915 (- 53),
              snip_page_span = Some (1, 3)\<rparr>] pgs query) =
            ''Here's what I found:\<newline>\<newline>'' @ ''Y'' @ ''\<newline>\<newline>'' @
            ''*Source: `b.pdf` (Pages 2-4, Relevance: 84.2%)*'' @ ''\<newline>\<newline>''
       \<and> content (formatResponse numberToString docs
            [\<lparr>snip_content = ''Y'', snip_path = ''b.pdf'',
              snip_score = Finite False 7584061772491915 (- 53),
              snip_page_span = None\<rparr>] pgs query) =
            ''Here's what I found:\<newline>\<newline>'' @ ''Y'' @ ''\<newline>\<newline>'' @
            ''*Source: `b.pdf` (Relevance: 84.2%)*'' @ ''\<newline>\<newline>''
       \<and> (mul (snip_score s) hundred = Finite neg m e \<and> magnitude m e < 10 ^ 21 \<longrightarrow>
            (\<exists>n. relevance numberToString s = (if neg \<and> m \<noteq> 0 then ''-'' else []) @ tenths n \<and>
                 \<bar>real n / 10 - magnitude m e\<bar> \<le> 1 / 20))"
proof -
  from no_pages have np: "\<not> pages_length pgs"
    by (auto simp: pages_length_def)
  have blocks: "(snips \<noteq> [] \<longrightarrow>
          content (formatResponse numberToString docs snips pgs query) =
            ''Here's what I found:\<newline>\<newline>'' @ concat (map (snippet_block numberToString) snips))
       \<and> content (formatResponse numberToString docs
            [\<lparr>snip_content = ''Y'', snip_path = ''b.pdf'',
              snip_score = Finite False 7584061772491915 (- 53),
              snip_page_span = Some (1, 3)\<rparr>] pgs query) =
            ''Here's what I found:\<newline>\<newline>'' @ ''Y'' @ ''\<newline>\<newline>'' @
            ''*Source: `b.pdf` (Pages 2-4, Relevance: 84.2%)*'' @ ''\<newline>\<newline>''
       \<and> content (formatResponse numberToString docs
            [\<lparr>snip_content = ''Y'', snip_path = ''b.pdf'',
              snip_score = Finite False 7584061772491915 (- 53),
              snip_page_span = None\<rparr>] pgs query) =
            ''Here's what I found:\<newline>\<newline>'' @ ''Y'' @ ''\<newline>\<newline>'' @
            ''*Source: `b.pdf` (Relevance: 84.2%)*'' @ ''\<newline>\<newline>''"
    using not_listing
    by (auto simp: formatResponse_content np snippet_block_def citation_def
          show_int_small score_0842)
  have rounds: "mul (snip_score s) hundred = Finite neg m e \<and> magnitude m e < 10 ^ 21 \<longrightarrow>
            (\<exists>n. relevance numberToString s = (if neg \<and> m \<noteq> 0 then ''-'' else []) @ tenths n \<and>
                 \<bar>real n / 10 - magnitude m e\<bar> \<le> 1 / 20)"
  proof
    assume a: "mul (snip_score s) hundred = Finite neg m e \<and> magnitude m e < 10 ^ 21"
    then have "magnitude m e < 10 ^ 21" by simp
    from toFixed1_rounds [OF this, of numberToString neg] a
    show "\<exists>n. relevance numberToString s = (if neg \<and> m \<noteq> 0 then ''-'' else []) @ tenths n \<and>
                 \<bar>real n / 10 - magnitude m e\<bar> \<le> 1 / 20"
      by (simp add: relevance_def)
  qed
  from blocks rounds show ?thesis
    by (intro conjI) blast+
qed

theorem formatResponse_snippets_witness:
  "\<not> str_includes (toLowerCase ''How do I install it?'') ''show'' \<and>
   content (formatResponse example_numberToString [\<lparr>doc_path = ''a''\<rparr>]
      [\<lparr>snip_content = ''Y'', snip_path = ''b.pdf'',
        snip_score = Finite False 7584061772491915 (- 53), snip_page_span = Some (1, 3)\<rparr>,
       \<lparr>snip_content = ''Z'', snip_path = ''a.pdf'',
        snip_score = Finite False 3 (- 2), snip_page_span = None\<rparr>]
      None ''How do I install it?'') =
     ''Here's what I found:\<newline>\<newline>Y\<newline>\<newline>*Source: `b.pdf` (Pages 2-4, Relevance: 84.2%)*\<newline>\<newline>Z\<newline>\<newline>*Source: `a.pdf` (Relevance: 75.0%)*\<newline>\<newline>'' \<and>
   magnitude 5925048259759309 (- 46) < 10 ^ 21 \<and>
   (\<exists>n. tenths n = ''84.2'' \<and> \<bar>real n / 10 - magnitude 5925048259759309 (- 46)\<bar> \<le> 1 / 20)"
proof -
  have n: "\<not> str_includes (toLowerCase ''How do I install it?'') ''show''"
    by code_simp
  then have q: "\<not> (str_includes (toLowerCase ''How do I install it?'') ''show'' \<and>
        (str_includes (toLowerCase ''How do I install it?'') ''document'' \<or>
         str_includes (toLowerCase ''How do I install it?'') ''all''))"
    by simp
  have p: "(None::page list option) = None \<or> (None::page list option) = Some []"
    by simp
  from formatResponse_snippets [OF q p, where numberToString = example_numberToString
      and docs = "[\<lparr>doc_path = ''a''\<rparr>]"
      and snips = "[\<lparr>snip_content = ''Y'', snip_path = ''b.pdf'',
        snip_score = Finite False 7584061772491915 (- 53), snip_page_span = Some (1, 3)\<rparr>,
       \<lparr>snip_content = ''Z'', snip_path = ''a.pdf'',
        snip_score = Finite False 3 (- 2), snip_page_span = None\<rparr>]"
      and s = "\<lparr>snip_content = ''Y'', snip_path = ''b.pdf'',
        snip_score = Finite False 7584061772491915 (- 53), snip_page_span = Some (1, 3)\<rparr>"
      and neg = False and m = 5925048259759309 and e = "- 46"] n
  have w: "content (formatResponse example_numberToString [\<lparr>doc_path = ''a''\<rparr>]
      [\<lparr>snip_content = ''Y'', snip_path = ''b.pdf'',
        snip_score = Finite False 7584061772491915 (- 53), snip_page_span = Some (1, 3)\<rparr>,
       \<lparr>snip_content = ''Z'', snip_path = ''a.pdf'',
        snip_score = Finite False 3 (- 2), snip_page_span = None\<rparr>]
      None ''How do I install it?'') =
     ''Here's what I found:\<newline>\<newline>Y\<newline>\<newline>*Source: `b.pdf` (Pages 2-4, Relevance: 84.2%)*\<newline>\<newline>Z\<newline>\<newline>*Source: `a.pdf` (Relevance: 75.0%)*\<newline>\<newline>''"
    and r: "mul (Finite False 7584061772491915 (- 53)) hundred = Finite False 5925048259759309 (- 46) \<and>
        magnitude 5925048259759309 (- 46) < 10 ^ 21 \<longrightarrow>
      (\<exists>n. ''84.2'' = tenths n \<and> \<bar>real n / 10 - magnitude 5925048259759309 (- 46)\<bar> \<le> 1 / 20)"
    by (simp_all add: snippet_block_def citation_def show_int_small score_0842 score_075)
  have b: "magnitude 5925048259759309 (- 46) < 10 ^ 21"
    by (simp add: magnitude_def)
  with r mul_0842 have "\<exists>n. tenths n = ''84.2'' \<and>
      \<bar>real n / 10 - magnitude 5925048259759309 (- 46)\<bar> \<le> 1 / 20"
    by (metis (no_types))
  with w b n show ?thesis by blast
qed

section \<open>Properties of processQuery and handleSubmit\<close>

text \<open>
  C6. Whenever one of the retrieval calls that the caller issues fails (the document
  query, the snippet query, or the page query of a query that asks for pages), the caller
  returns the fixed message "Sorry, I encountered an error while searching the
  documentation." with an empty evidence list, whatever the error is; the assistant message
  added to the transcript holds that text and no snippets, so nothing of the error reaches
  the transcript.
\<close>

theorem processQuery_failure:
  assumes failure:
    "(\<exists>err. queries_topDocuments c collectionName query 3 True = Inl err) \<or>
     (\<exists>err. queries_topSnippets c collectionName query 3 True = Inl err) \<or>
     (str_includes (toLowerCase query) ''page'' \<and>
      (\<exists>err. queries_topPages c collectionName query 3 True = Inl err))"
  shows "fst (processQuery numberToString c collectionName query) =
           \<lparr>content = ''Sorry, I encountered an error while searching the documentation.'',
            snippets = [], documents = None, pages = None\<rparr>
       \<and> (trim (input st) \<noteq> [] \<and> input st = query \<longrightarrow>
            messages (fst (handleSubmit numberToString (Some c) collectionName t_sent t_reply st)) =
              messages st @
              [\<lparr>msg_id = show_int t_sent, msg_role = User, msg_content = query, msg_snippets = None\<rparr>,
               \<lparr>msg_id = show_int (t_reply + 1), msg_role = Assistant,
                msg_content = ''Sorry, I encountered an error while searching the documentation.'',
                msg_snippets = Some []\<rparr>])"
proof -
  have r: "fst (processQuery numberToString c collectionName query) =
           \<lparr>content = ''Sorry, I encountered an error while searching the documentation.'',
            snippets = [], documents = None, pages = None\<rparr>"
    using failure
    by (auto simp: processQuery_def Let_def split: sum.splits)
  show ?thesis
    using r
    by (auto simp: handleSubmit_def submit_user_def submit_assistant_def Let_def
          split: prod.splits)
qed

theorem processQuery_failure_witness:
  "messages (fst (handleSubmit example_numberToString (Some failing_client) ''default'' 1700000000000 1700000000250
      \<lparr>messages = [], input = ''How do I install it?'', isLoading = False\<rparr>)) =
     [\<lparr>msg_id = ''1700000000000'', msg_role = User, msg_content = ''How do I install it?'',
       msg_snippets = None\<rparr>,
      \<lparr>msg_id = ''1700000000251'', msg_role = Assistant,
       msg_content = ''Sorry, I encountered an error while searching the documentation.'',
       msg_snippets = Some []\<rparr>]"
proof -
  have f: "(\<exists>err. queries_topDocuments failing_client ''default'' ''How do I install it?'' 3 True = Inl err) \<or>
     (\<exists>err. queries_topSnippets failing_client ''default'' ''How do I install it?'' 3 True = Inl err) \<or>
     (str_includes (toLowerCase ''How do I install it?'') ''page'' \<and>
      (\<exists>err. queries_topPages failing_client ''default'' ''How do I install it?'' 3 True = Inl err))"
    by (simp add: failing_client_def)
  have t: "trim ''How do I install it?'' \<noteq> []"
    by code_simp
  have n1: "show_int 1700000000000 = ''1700000000000''"
    by (simp add: show_int_def show_nat.simps digit_char_values)
  have n2: "show_int 1700000000251 = ''1700000000251''"
    by (simp add: show_int_def show_nat.simps digit_char_values)
  from processQuery_failure [OF f, where numberToString = example_numberToString and t_sent = 1700000000000
      and t_reply = 1700000000250
      and st = "\<lparr>messages = [], input = ''How do I install it?'', isLoading = False\<rparr>"] t n1 n2
  show ?thesis by simp
qed

text \<open>
  C7, as stated: the page query is issued if and only if the query contains "page" in any
  letter case. This fails when an earlier call fails: for the query "page 2" and a client
  whose document query throws, no page query is issued.
\<close>

theorem processQuery_pages_counterexample:
  "\<not> (TopPagesCall ''default'' ''page 2'' 3 True
          \<in> set (snd (processQuery example_numberToString failing_client ''default'' ''page 2''))
        \<longleftrightarrow> str_includes (toLowerCase ''page 2'') ''page'')"
proof -
  have "str_includes (toLowerCase ''page 2'') ''page''"
    by code_simp
  moreover have "TopPagesCall ''default'' ''page 2'' 3 True
      \<notin> set (snd (processQuery example_numberToString failing_client ''default'' ''page 2''))"
    by (simp add: processQuery_def failing_client_def)
  ultimately show ?thesis by simp
qed

text \<open>
  C7, amended. A page query is issued only for a query that contains "page" in any letter
  case, and it is issued for every such query once the document and the snippet query have
  both succeeded. When those two succeed and the query does not contain "page", the
  formatter receives absent pages; when the page query is issued and succeeds, the formatter
  receives its results, an empty list included.
\<close>

theorem processQuery_pages:
  "(TopPagesCall collectionName query 3 True
      \<in> set (snd (processQuery numberToString c collectionName query))
    \<longrightarrow> str_includes (toLowerCase query) ''page'')
   \<and> (queries_topDocuments c collectionName query 3 True = Inr docs \<and>
      queries_topSnippets c collectionName query 3 True = Inr snips
      \<longrightarrow> (TopPagesCall collectionName query 3 True
              \<in> set (snd (processQuery numberToString c collectionName query))
            \<longleftrightarrow> str_includes (toLowerCase query) ''page'')
        \<and> (\<not> str_includes (toLowerCase query) ''page''
            \<longrightarrow> fst (processQuery numberToString c collectionName query) =
                  formatResponse numberToString docs snips None query)
        \<and> (str_includes (toLowerCase query) ''page'' \<and>
            queries_topPages c collectionName query 3 True = Inr ps
            \<longrightarrow> fst (processQuery numberToString c collectionName query) =
                  formatResponse numberToString docs snips (Some ps) query))"
  by (auto simp: processQuery_def Let_def split: sum.splits)

theorem processQuery_pages_witness:
  "str_includes (toLowerCase ''What is on Page 2?'') ''page'' \<and>
   TopPagesCall ''default'' ''What is on Page 2?'' 3 True
     \<in> set (snd (processQuery example_numberToString listing_client ''default'' ''What is on Page 2?'')) \<and>
   fst (processQuery example_numberToString listing_client ''default'' ''What is on Page 2?'') =
     formatResponse example_numberToString [\<lparr>doc_path = ''a''\<rparr>] [] (Some []) ''What is on Page 2?'' \<and>
   \<not> str_includes (toLowerCase ''How do I install it?'') ''page'' \<and>
   TopPagesCall ''default'' ''How do I install it?'' 3 True
     \<notin> set (snd (processQuery example_numberToString listing_client ''default'' ''How do I install it?'')) \<and>
   fst (processQuery example_numberToString listing_client ''default'' ''How do I install it?'') =
     formatResponse example_numberToString [\<lparr>doc_path = ''a''\<rparr>] [] None ''How do I install it?''"
proof -
  have p: "str_includes (toLowerCase ''What is on Page 2?'') ''page''"
    by code_simp
  have n: "\<not> str_includes (toLowerCase ''How do I install it?'') ''page''"
    by code_simp
  have d: "queries_topDocuments listing_client ''default'' q 3 True = Inr [\<lparr>doc_path = ''a''\<rparr>]"
    and s: "queries_topSnippets listing_client ''default'' q 3 True = Inr []"
    and g: "queries_topPages listing_client ''default'' q 3 True = Inr []" for q
    by (simp_all add: listing_client_def)
  from processQuery_pages [where c = listing_client and collectionName = "''default''"
      and query = "''What is on Page 2?''" and numberToString = example_numberToString
      and docs = "[\<lparr>doc_path = ''a''\<rparr>]" and snips = "[]" and ps = "[]"]
    processQuery_pages [where c = listing_client and collectionName = "''default''"
      and query = "''How do I install it?''" and numberToString = example_numberToString
      and docs = "[\<lparr>doc_path = ''a''\<rparr>]" and snips = "[]" and ps = "[]"]
    p n d s g
  show ?thesis by simp
qed

text \<open>
  C10. If the input is empty or white space only, or there is no client, the submit handler
  does nothing: the state (messages, input, loading flag) is unchanged and no call is issued.
\<close>

theorem handleSubmit_guard:
  assumes "(\<forall>ch\<in>set (input st). isWhiteSpace ch) \<or> c = None"
  shows "handleSubmit numberToString c collectionName t_sent t_reply st = (st, [])"
  using assms
  by (auto simp: handleSubmit_def trim_empty_iff split: option.splits)

theorem handleSubmit_guard_witness:
  "isWhiteSpace CHR '' '' \<and> isWhiteSpace (CHR 0x09) \<and>
   handleSubmit example_numberToString (Some listing_client) ''default'' 5 9
     \<lparr>messages = [], input = [CHR '' '', CHR 0x09, CHR '' ''], isLoading = False\<rparr> =
     (\<lparr>messages = [], input = [CHR '' '', CHR 0x09, CHR '' ''], isLoading = False\<rparr>, []) \<and>
   handleSubmit example_numberToString None ''default'' 5 9
     \<lparr>messages = [], input = ''show all documents'', isLoading = False\<rparr> =
     (\<lparr>messages = [], input = ''show all documents'', isLoading = False\<rparr>, [])"
proof -
  have w: "\<forall>ch\<in>set [CHR '' '', CHR 0x09, CHR '' '']. isWhiteSpace ch"
    by (simp add: isWhiteSpace_def)
  from handleSubmit_guard [where c = "Some listing_client" and numberToString = example_numberToString
      and collectionName = "''default''" and t_sent = 5 and t_reply = 9
      and st = "\<lparr>messages = [], input = [CHR '' '', CHR 0x09, CHR '' ''], isLoading = False\<rparr>"]
    handleSubmit_guard [where c = None and numberToString = example_numberToString
      and collectionName = "''default''" and t_sent = 5 and t_reply = 9
      and st = "\<lparr>messages = [], input = ''show all documents'', isLoading = False\<rparr>"]
    w
  show ?thesis by (simp add: isWhiteSpace_def)
qed

text \<open>
  C5, as stated: the snippets, documents and pages attached to the assistant message are
  exactly the evidence the formatter used for its content. The message has no documents and
  no pages: for the query "show all documents" the content lists the document a, which the
  formatter returns as its documents, while the message carries an empty snippet list only.
\<close>

theorem handleSubmit_evidence_counterexample:
  "msg_content (last (messages (fst (handleSubmit example_numberToString (Some listing_client) ''default'' 5 9
      \<lparr>messages = [], input = ''show all documents'', isLoading = False\<rparr>)))) =
     content (formatResponse example_numberToString [\<lparr>doc_path = ''a''\<rparr>] [] None ''show all documents'')
   \<and> message_evidence (last (messages (fst (handleSubmit example_numberToString (Some listing_client) ''default'' 5 9
      \<lparr>messages = [], input = ''show all documents'', isLoading = False\<rparr>)))) \<noteq>
     (Some (snippets (formatResponse example_numberToString [\<lparr>doc_path = ''a''\<rparr>] [] None ''show all documents'')),
      documents (formatResponse example_numberToString [\<lparr>doc_path = ''a''\<rparr>] [] None ''show all documents''),
      pages (formatResponse example_numberToString [\<lparr>doc_path = ''a''\<rparr>] [] None ''show all documents''))"
  by (simp add: listing_run message_evidence_def formatResponse_def)

text \<open>
  C5, amended. After a submission whose retrieval calls succeed, the transcript is the old
  one followed by the user message and the assistant message; the assistant message's
  content is the formatter's content for the retrieved documents, snippets and pages, and
  its snippets are exactly the retrieved snippets that the formatter was given. Documents
  and pages are not attached. The handler's run is made of steps of the component, and over
  any sequence of such steps the old transcript stays a prefix of the new one: messages are
  only appended, in the order of their creation, and a message once added keeps its role,
  content and snippets.
\<close>

theorem handleSubmit_transcript:
  assumes nonblank: "trim (input st) \<noteq> []"
    and docs: "queries_topDocuments c collectionName (input st) 3 True = Inr docs"
    and snips: "queries_topSnippets c collectionName (input st) 3 True = Inr snips"
    and pgs: "str_includes (toLowerCase (input st)) ''page'' \<longrightarrow>
              queries_topPages c collectionName (input st) 3 True = Inr ps"
  shows "messages (fst (handleSubmit numberToString (Some c) collectionName t_sent t_reply st)) =
           messages st @
           [\<lparr>msg_id = show_int t_sent, msg_role = User, msg_content = input st,
             msg_snippets = None\<rparr>,
            \<lparr>msg_id = show_int (t_reply + 1), msg_role = Assistant,
             msg_content = content (formatResponse numberToString docs snips
               (if str_includes (toLowerCase (input st)) ''page'' then Some ps else None)
               (input st)),
             msg_snippets = Some snips\<rparr>]
       \<and> (chat_step (Some c))\<^sup>*\<^sup>* st
            (fst (handleSubmit numberToString (Some c) collectionName t_sent t_reply st))
       \<and> (\<forall>s s'. (chat_step k)\<^sup>*\<^sup>* s s' \<longrightarrow> prefix (messages s) (messages s'))"
proof (intro conjI allI impI)
  show "messages (fst (handleSubmit numberToString (Some c) collectionName t_sent t_reply st)) =
           messages st @
           [\<lparr>msg_id = show_int t_sent, msg_role = User, msg_content = input st,
             msg_snippets = None\<rparr>,
            \<lparr>msg_id = show_int (t_reply + 1), msg_role = Assistant,
             msg_content = content (formatResponse numberToString docs snips
               (if str_includes (toLowerCase (input st)) ''page'' then Some ps else None)
               (input st)),
             msg_snippets = Some snips\<rparr>]"
    using nonblank docs snips pgs
    by (simp add: handleSubmit_def processQuery_def submit_user_def submit_assistant_def
          snippets_of_formatResponse)
next
  obtain r effects where pq: "processQuery numberToString c collectionName (input st) = (r, effects)"
    by (cases "processQuery numberToString c collectionName (input st)")
  have "chat_step (Some c) st (submit_user t_sent st)"
    using nonblank by (simp add: chat_step.submitted)
  moreover have "chat_step (Some c) (submit_user t_sent st)
      (submit_assistant r t_reply (submit_user t_sent st))"
    by (rule chat_step.answered)
  ultimately have "(chat_step (Some c))\<^sup>*\<^sup>* st (submit_assistant r t_reply (submit_user t_sent st))"
    by (meson rtranclp.rtrancl_into_rtrancl rtranclp.rtrancl_refl)
  then show "(chat_step (Some c))\<^sup>*\<^sup>* st
      (fst (handleSubmit numberToString (Some c) collectionName t_sent t_reply st))"
    using nonblank by (simp add: handleSubmit_def pq)
next
  fix s s'
  assume "(chat_step k)\<^sup>*\<^sup>* s s'"
  then show "prefix (messages s) (messages s')"
    by (rule chat_steps_prefix)
qed

theorem handleSubmit_transcript_witness:
  "trim ''show all documents'' \<noteq> [] \<and>
   messages (fst (handleSubmit example_numberToString (Some listing_client) ''default'' 5 9
      \<lparr>messages = [\<lparr>msg_id = ''0'', msg_role = System, msg_content = ''Hello!'',
                      msg_snippets = None\<rparr>],
       input = ''show all documents'', isLoading = False\<rparr>)) =
     [\<lparr>msg_id = ''0'', msg_role = System, msg_content = ''Hello!'', msg_snippets = None\<rparr>,
      \<lparr>msg_id = ''5'', msg_role = User, msg_content = ''show all documents'',
       msg_snippets = None\<rparr>,
      \<lparr>msg_id = ''10'', msg_role = Assistant,
       msg_content = ''Here are the available documents:\<newline>\<newline>1. **a**\<newline>'',
       msg_snippets = Some []\<rparr>] \<and>
   prefix [\<lparr>msg_id = ''0'', msg_role = System, msg_content = ''Hello!'', msg_snippets = None\<rparr>]
     (messages (fst (handleSubmit example_numberToString (Some listing_client) ''default'' 5 9
        \<lparr>messages = [\<lparr>msg_id = ''0'', msg_role = System, msg_content = ''Hello!'',
                        msg_snippets = None\<rparr>],
         input = ''show all documents'', isLoading = False\<rparr>)))"
proof -
  let ?st = "\<lparr>messages = [\<lparr>msg_id = ''0'', msg_role = System, msg_content = ''Hello!'',
                      msg_snippets = None\<rparr>],
       input = ''show all documents'', isLoading = False\<rparr>"
  have t: "trim (input ?st) \<noteq> []"
    by code_simp
  have d: "queries_topDocuments listing_client ''default'' (input ?st) 3 True =
      Inr [\<lparr>doc_path = ''a''\<rparr>]"
    by (simp add: listing_client_def)
  have s: "queries_topSnippets listing_client ''default'' (input ?st) 3 True = Inr []"
    by (simp add: listing_client_def)
  have p: "str_includes (toLowerCase (input ?st)) ''page'' \<longrightarrow>
      queries_topPages listing_client ''default'' (input ?st) 3 True = Inr []"
    by (simp add: listing_client_def)
  have l: "str_includes (toLowerCase ''show all documents'') ''show''"
      "str_includes (toLowerCase ''show all documents'') ''all''"
    by code_simp+
  have n: "show_int 5 = ''5''" "show_int 10 = ''10''"
    by (simp_all add: show_int_def show_nat.simps digit_char_values)
  note w = handleSubmit_transcript [OF t d s p, where numberToString = example_numberToString
      and t_sent = 5 and t_reply = 9 and k = "Some listing_client"]
  from w have m: "messages (fst (handleSubmit example_numberToString (Some listing_client) ''default'' 5 9 ?st)) =
     [\<lparr>msg_id = ''0'', msg_role = System, msg_content = ''Hello!'', msg_snippets = None\<rparr>,
      \<lparr>msg_id = ''5'', msg_role = User, msg_content = ''show all documents'',
       msg_snippets = None\<rparr>,
      \<lparr>msg_id = ''10'', msg_role = Assistant,
       msg_content = ''Here are the available documents:\<newline>\<newline>1. **a**\<newline>'',
       msg_snippets = Some []\<rparr>]"
    by (simp add: not_page_listing n formatResponse_content l numbered_lines_def
          numbered_line_def show_nat_1)
  from w have "prefix (messages ?st)
      (messages (fst (handleSubmit example_numberToString (Some listing_client) ''default'' 5 9 ?st)))"
    by blast
  with m t show ?thesis by simp
qed

section \<open>Properties of handleFileUpload\<close>




end
